theory Spec2Isabelle
  imports Complex_Main "HOL-Library.Word"
begin

section \<open>JavaScript values of the gateway (src/r2\_uploader.js)\<close>

text \<open>
  A JavaScript string is a sequence of 16-bit code units. Literals of the source are
  written as HOL strings and turned into code units by \<open>ustr\<close>.
\<close>

type_synonym ustring = "16 word list"

definition ustr :: "string \<Rightarrow> ustring" where
  "ustr s = map (\<lambda>c. of_nat (of_char c)) s"

text \<open>
  The values a variable of a handler can hold: \<open>undefined\<close>, and what a parsed JSON body
  contains. \<open>JNum\<close> carries the finite number the parser produced (both zeros are \<open>0\<close>);
  a literal that overflows behaves here as any non-zero number.
\<close>

datatype jsvalue =
    JUndefined
  | JNull
  | JBool bool
  | JNum rat
  | JStr ustring
  | JArr "jsvalue list"
  | JObj "(ustring \<times> jsvalue) list"

text \<open>Truthiness, as tested by \<open>!x\<close> and \<open>x || y\<close>.\<close>

fun truthy :: "jsvalue \<Rightarrow> bool" where
  "truthy JUndefined = False"
| "truthy JNull = False"
| "truthy (JBool b) = b"
| "truthy (JNum q) = (q \<noteq> 0)"
| "truthy (JStr s) = (s \<noteq> [])"
| "truthy (JArr xs) = True"
| "truthy (JObj kvs) = True"

text \<open>
  \<open>req.body\<close>, the object \<open>express.json()\<close> leaves on the request, maps property
  names to values; reading a property that is not there gives \<open>undefined\<close>.
\<close>

type_synonym js_object = "ustring \<rightharpoonup> jsvalue"

definition property :: "js_object \<Rightarrow> string \<Rightarrow> jsvalue" where
  "property obj k = (case obj (ustr k) of None \<Rightarrow> JUndefined | Some v \<Rightarrow> v)"

text \<open>A thrown \<open>Error\<close> object: its constructor name and its \<open>message\<close>.\<close>

datatype js_error = JsError (err_name: string) (message: ustring)

section \<open>encodeURIComponent\<close>

text \<open>
  The built-in called at lines 57 and 254, after ECMA-262 (Encode with the unescaped set
  of encodeURIComponent): letters, digits and \<open>- _ . ! ~ * ' ( )\<close> are copied, every
  other code point is written as the percent-escaped octets of its UTF-8 form, and an
  unpaired surrogate throws URIError.
\<close>

definition uriUnescaped :: "16 word \<Rightarrow> bool" where
  "uriUnescaped c \<longleftrightarrow>
     (0x41 \<le> c \<and> c \<le> 0x5A) \<or> (0x61 \<le> c \<and> c \<le> 0x7A) \<or> (0x30 \<le> c \<and> c \<le> 0x39)
     \<or> c \<in> set [0x2D, 0x5F, 0x2E, 0x21, 0x7E, 0x2A, 0x27, 0x28, 0x29]"

definition is_lead :: "16 word \<Rightarrow> bool" where
  "is_lead c \<longleftrightarrow> 0xD800 \<le> c \<and> c \<le> 0xDBFF"

definition is_trail :: "16 word \<Rightarrow> bool" where
  "is_trail c \<longleftrightarrow> 0xDC00 \<le> c \<and> c \<le> 0xDFFF"

definition pair_code_point :: "16 word \<Rightarrow> 16 word \<Rightarrow> nat" where
  "pair_code_point c d = (unat c - 0xD800) * 0x400 + (unat d - 0xDC00) + 0x10000"

definition UTF8Encode :: "nat \<Rightarrow> nat list" where
  "UTF8Encode cp =
     (if cp < 0x80 then [cp]
      else if cp < 0x800 then [0xC0 + cp div 0x40, 0x80 + cp mod 0x40]
      else if cp < 0x10000 then
        [0xE0 + cp div 0x1000, 0x80 + cp div 0x40 mod 0x40, 0x80 + cp mod 0x40]
      else
        [0xF0 + cp div 0x40000, 0x80 + cp div 0x1000 mod 0x40,
         0x80 + cp div 0x40 mod 0x40, 0x80 + cp mod 0x40])"

definition hexDigit :: "nat \<Rightarrow> 16 word" where
  "hexDigit n = (if n < 10 then of_nat (0x30 + n) else of_nat (0x41 + (n - 10)))"

definition escape_octet :: "nat \<Rightarrow> ustring" where
  "escape_octet b = [0x25, hexDigit (b div 16), hexDigit (b mod 16)]"

definition escape_code_point :: "nat \<Rightarrow> ustring" where
  "escape_code_point cp = concat (map escape_octet (UTF8Encode cp))"

definition URIError :: js_error where
  "URIError = JsError ''URIError'' (ustr ''URI malformed'')"

definition emit :: "ustring \<Rightarrow> js_error + ustring \<Rightarrow> js_error + ustring" where
  "emit xs r = (case r of Inl e \<Rightarrow> Inl e | Inr ys \<Rightarrow> Inr (xs @ ys))"

fun Encode :: "ustring \<Rightarrow> js_error + ustring" where
  "Encode [] = Inr []"
| "Encode [c] =
     (if uriUnescaped c then Inr [c]
      else if is_lead c \<or> is_trail c then Inl URIError
      else Inr (escape_code_point (unat c)))"
| "Encode (c # d # cs) =
     (if uriUnescaped c then emit [c] (Encode (d # cs))
      else if is_trail c then Inl URIError
      else if \<not> is_lead c then emit (escape_code_point (unat c)) (Encode (d # cs))
      else if \<not> is_trail d then Inl URIError
      else emit (escape_code_point (pair_code_point c d)) (Encode cs))"

section \<open>The environment of a request\<close>

text \<open>A \<open>Buffer\<close> is a sequence of octets.\<close>

type_synonym buffer = "8 word list"

text \<open>
  The two commands of the store client. \<open>Body\<close> is absent on the command that is only
  signed; \<open>ContentType\<close> is absent on a read. \<open>Bucket\<close> is \<open>process.env.R2_BUCKET\<close>,
  which may be unset.
\<close>

datatype command =
    PutObjectCommand (Bucket: "ustring option") (Key: jsvalue)
      (Body: "buffer option") (ContentType: jsvalue)
  | GetObjectCommand (Bucket: "ustring option") (Key: jsvalue)

record sign_request =
  sign_command :: command
  expiresIn :: nat

text \<open>
  What lies outside the repository is a parameter: the environment variables, the
  presigner (\<open>getSignedUrl\<close>), the store's answer to a sent command (\<open>s3.send\<close>), and the
  runtime's ToString on values that are not strings (the formatting of numbers, and of
  arrays and objects, is the engine's).
\<close>

record env =
  R2_BUCKET :: "ustring option"
  R2_PUBLIC_URL :: "ustring option"
  getSignedUrl :: "sign_request \<Rightarrow> js_error + ustring"
  s3_send :: "command \<Rightarrow> js_error + unit"
  ToString_other :: "jsvalue \<Rightarrow> js_error + ustring"

text \<open>
  A file on disk: its bytes, and the error \<open>readFileSync\<close> or \<open>unlinkSync\<close> throws on
  it, if any (a permission or a lock, say).
\<close>

record disk_file =
  content :: buffer
  read_error :: "js_error option"
  unlink_error :: "js_error option"

text \<open>
  The world a handler acts on: the disk, and what has been sent so far to the
  presigner, to the store, to the file system as deletions, and to \<open>console.error\<close>.
\<close>

record world =
  disk :: "ustring \<rightharpoonup> disk_file"
  signs :: "sign_request list"
  puts :: "command list"
  unlinks :: "ustring list"
  console :: "(string \<times> js_error) list"

record response =
  status :: nat
  json :: "(string \<times> jsvalue) list"

definition ToString :: "env \<Rightarrow> jsvalue \<Rightarrow> js_error + ustring" where
  "ToString e v = (case v of JStr s \<Rightarrow> Inr s | _ \<Rightarrow> ToString_other e v)"

definition encodeURIComponent :: "env \<Rightarrow> jsvalue \<Rightarrow> js_error + ustring" where
  "encodeURIComponent e v = (case ToString e v of Inl err \<Rightarrow> Inl err | Inr s \<Rightarrow> Encode s)"

definition console_error :: "string \<Rightarrow> js_error \<Rightarrow> world \<Rightarrow> world" where
  "console_error label err w = w\<lparr>console := console w @ [(label, err)]\<rparr>"

text \<open>\<open>fs.existsSync\<close>: false on the empty path and on a path with no file.\<close>

definition existsSync :: "world \<Rightarrow> ustring \<Rightarrow> bool" where
  "existsSync w p \<longleftrightarrow> p \<noteq> [] \<and> disk w p \<noteq> None"

definition ENOENT :: "string \<Rightarrow> ustring \<Rightarrow> js_error" where
  "ENOENT syscall p =
     JsError ''Error'' (ustr (''ENOENT: no such file or directory, '' @ syscall @ '' '')
                         @ [0x27] @ p @ [0x27])"

definition readFileSync :: "world \<Rightarrow> ustring \<Rightarrow> js_error + buffer" where
  "readFileSync w p =
     (case disk w p of
        None \<Rightarrow> Inl (ENOENT ''open'' p)
      | Some f \<Rightarrow> (case read_error f of Some err \<Rightarrow> Inl err | None \<Rightarrow> Inr (content f)))"

text \<open>\<open>fs.unlinkSync\<close>: the attempt is recorded; on success the file is gone.\<close>

definition unlinkSync :: "world \<Rightarrow> ustring \<Rightarrow> (js_error + unit) \<times> world" where
  "unlinkSync w p =
     (let w1 = w\<lparr>unlinks := unlinks w @ [p]\<rparr> in
      case disk w p of
        None \<Rightarrow> (Inl (ENOENT ''unlink'' p), w1)
      | Some f \<Rightarrow>
          (case unlink_error f of
             Some err \<Rightarrow> (Inl err, w1)
           | None \<Rightarrow> (Inr (), w1\<lparr>disk := (disk w)(p := None)\<rparr>)))"

definition publicBase :: "env \<Rightarrow> ustring" where
  "publicBase e =
     (case R2_PUBLIC_URL e of
        None \<Rightarrow> ustr ''https://cdn.atulyaayurveda.shop''
      | Some u \<Rightarrow> if u = [] then ustr ''https://cdn.atulyaayurveda.shop'' else u)"

section \<open>POST /generate-upload-url (lines 38--74)\<close>

definition upload_url_catch :: "js_error \<Rightarrow> world \<Rightarrow> response \<times> world" where
  "upload_url_catch err w =
     (\<lparr>status = 500,
       json = [(''success'', JBool False),
               (''error'', JStr (if message err = [] then ustr ''Failed to generate presigned URL''
                                  else message err))]\<rparr>,
      console_error ''Error generating presigned URL:'' err w)"

definition generateUploadURL ::
  "env \<Rightarrow> js_object \<Rightarrow> world \<Rightarrow> response \<times> world" where
  "generateUploadURL e body w =
     (let filename = property body ''filename'';
          contentType = property body ''contentType''
      in if \<not> truthy filename then
           (\<lparr>status = 400, json = [(''error'', JStr (ustr ''Filename is required''))]\<rparr>, w)
         else
           let cmd = PutObjectCommand (R2_BUCKET e) filename None
                       (if truthy contentType then contentType
                        else JStr (ustr ''application/octet-stream''));
               request = \<lparr>sign_command = cmd, expiresIn = 3600\<rparr>;
               w1 = w\<lparr>signs := signs w @ [request]\<rparr>
           in case getSignedUrl e request of
                Inl err \<Rightarrow> upload_url_catch err w1
              | Inr presignedUrl \<Rightarrow>
                  (case encodeURIComponent e filename of
                     Inl err \<Rightarrow> upload_url_catch err w1
                   | Inr encodedFilename \<Rightarrow>
                       (\<lparr>status = 200,
                         json = [(''success'', JBool True),
                                 (''presignedUrl'', JStr presignedUrl),
                                 (''publicUrl'', JStr (publicBase e @ ustr ''/'' @ encodedFilename)),
                                 (''filename'', filename),
                                 (''message'', JStr (ustr ''Presigned URL generated successfully''))]\<rparr>,
                        w1)))"

section \<open>POST /generate-download-url (lines 77--106)\<close>

definition download_url_catch :: "js_error \<Rightarrow> world \<Rightarrow> response \<times> world" where
  "download_url_catch err w =
     (\<lparr>status = 500,
       json = [(''success'', JBool False),
               (''error'', JStr (if message err = [] then ustr ''Failed to generate download URL''
                                  else message err))]\<rparr>,
      console_error ''Error generating download URL:'' err w)"

definition generateDownloadURL ::
  "env \<Rightarrow> js_object \<Rightarrow> world \<Rightarrow> response \<times> world" where
  "generateDownloadURL e body w =
     (let filename = property body ''filename''
      in if \<not> truthy filename then
           (\<lparr>status = 400, json = [(''error'', JStr (ustr ''Filename is required''))]\<rparr>, w)
         else
           let cmd = GetObjectCommand (R2_BUCKET e) filename;
               request = \<lparr>sign_command = cmd, expiresIn = 3600\<rparr>;
               w1 = w\<lparr>signs := signs w @ [request]\<rparr>
           in case getSignedUrl e request of
                Inl err \<Rightarrow> download_url_catch err w1
              | Inr presignedUrl \<Rightarrow>
                  (\<lparr>status = 200,
                    json = [(''success'', JBool True),
                            (''presignedUrl'', JStr presignedUrl),
                            (''filename'', filename),
                            (''message'', JStr (ustr ''Download URL generated successfully''))]\<rparr>,
                   w1))"

section \<open>POST /upload (lines 224--281)\<close>

text \<open>\<open>req.file\<close> as multer's disk storage fills it in.\<close>

record multer_file =
  originalname :: ustring
  mimetype :: ustring
  path :: ustring

text \<open>The \<open>try\<close> block, lines 231--263: the error thrown, or the response sent.\<close>

definition upload_try :: "env \<Rightarrow> multer_file \<Rightarrow> world \<Rightarrow> (js_error + response) \<times> world" where
  "upload_try e file w =
     (if \<not> existsSync w (path file) then
        (Inl (JsError ''Error'' (ustr ''Uploaded file not found on disk'')), w)
      else
        (case readFileSync w (path file) of
           Inl err \<Rightarrow> (Inl err, w)
         | Inr fileBuffer \<Rightarrow>
             (let uploadParams =
                    PutObjectCommand (R2_BUCKET e) (JStr (originalname file))
                      (Some fileBuffer) (JStr (mimetype file));
                  w1 = w\<lparr>puts := puts w @ [uploadParams]\<rparr>
              in (case s3_send e uploadParams of
                    Inl err \<Rightarrow> (Inl err, w1)
                  | Inr result \<Rightarrow>
                      (let (deleted, w2) = unlinkSync w1 (path file)
                       in (case deleted of
                             Inl err \<Rightarrow> (Inl err, w2)
                           | Inr u \<Rightarrow>
                               (case encodeURIComponent e (JStr (originalname file)) of
                                  Inl err \<Rightarrow> (Inl err, w2)
                                | Inr encodedFilename \<Rightarrow>
                                    (Inr \<lparr>status = 200,
                                          json =
                                            [(''success'', JBool True),
                                             (''video_url'',
                                                JStr (publicBase e @ ustr ''/'' @ encodedFilename)),
                                             (''thumbnail_url'', JStr []),
                                             (''duration'', JStr []),
                                             (''message'',
                                                JStr (ustr ''Video uploaded successfully''))]\<rparr>,
                                     w2))))))))"

text \<open>The \<open>catch\<close> block, lines 264--280.\<close>

definition upload_catch :: "multer_file \<Rightarrow> js_error \<Rightarrow> world \<Rightarrow> response \<times> world" where
  "upload_catch file err w =
     (let w1 = console_error ''Upload error:'' err w;
          w2 = (if path file \<noteq> [] \<and> existsSync w1 (path file) then
                  (let (deleted, w') = unlinkSync w1 (path file)
                   in case deleted of
                     Inl cleanupErr \<Rightarrow> console_error ''Error cleaning up temp file:'' cleanupErr w'
                   | Inr u \<Rightarrow> w')
                else w1)
      in (\<lparr>status = 500,
            json = [(''success'', JBool False),
                    (''error'', JStr (if message err = [] then ustr ''Upload failed''
                                       else message err))]\<rparr>,
          w2))"

definition legacyUpload :: "env \<Rightarrow> multer_file option \<Rightarrow> world \<Rightarrow> response \<times> world" where
  "legacyUpload e req_file w =
     (case req_file of
        None \<Rightarrow> (\<lparr>status = 400, json = [(''error'', JStr (ustr ''No file uploaded''))]\<rparr>, w)
      | Some file \<Rightarrow>
          (let (outcome, w1) = upload_try e file w
           in case outcome of
             Inr res \<Rightarrow> (res, w1)
           | Inl err \<Rightarrow> upload_catch file err w1))"

section \<open>Percent-decoding, and the strings that can be encoded\<close>











text \<open>
  A string is well formed when it has no unpaired surrogate
  (\<open>String.prototype.isWellFormed\<close>).
\<close>

fun wellFormed :: "ustring \<Rightarrow> bool" where
  "wellFormed [] = True"
| "wellFormed [c] = (\<not> is_lead c \<and> \<not> is_trail c)"
| "wellFormed (c # d # cs) =
     (if is_lead c then is_trail d \<and> wellFormed cs
      else \<not> is_trail c \<and> wellFormed (d # cs))"


section \<open>Sample requests\<close>

definition demo_env :: env where
  "demo_env =
     \<lparr>R2_BUCKET = Some (ustr ''videos''),
      R2_PUBLIC_URL = None,
      getSignedUrl = (\<lambda>r. Inr (ustr ''https://r2.example/signed'')),
      s3_send = (\<lambda>c. Inr ()),
      ToString_other = (\<lambda>v. Inr (ustr ''[object Object]''))\<rparr>"

definition demo_world :: world where
  "demo_world = \<lparr>disk = Map.empty, signs = [], puts = [], unlinks = [], console = []\<rparr>"

definition demo_file :: multer_file where
  "demo_file =
     \<lparr>originalname = ustr ''a b.txt'', mimetype = ustr ''text/plain'',
      path = ustr ''uploads/3f2a''\<rparr>"

text \<open>A world where \<open>demo_file\<close> is staged, with the given errors on reading and deleting.\<close>

definition staged_world :: "js_error option \<Rightarrow> js_error option \<Rightarrow> world" where
  "staged_world rd ul =
     demo_world\<lparr>disk := [ustr ''uploads/3f2a'' \<mapsto>
                            \<lparr>content = [0x68, 0x69], read_error = rd, unlink_error = ul\<rparr>]\<rparr>"

definition EPERM :: js_error where
  "EPERM = JsError ''Error'' (ustr ''EPERM: operation not permitted, unlink'')"

definition signer_down :: env where
  "signer_down =
     demo_env\<lparr>getSignedUrl := \<lambda>r. Inl (JsError ''Error'' (ustr ''Credential is missing''))\<rparr>"

definition store_down :: env where
  "store_down =
     demo_env\<lparr>s3_send := \<lambda>c. Inl (JsError ''AccessDenied'' (ustr ''Access Denied''))\<rparr>"

definition EACCES :: js_error where
  "EACCES = JsError ''Error'' (ustr ''EACCES: permission denied, open'')"



text \<open>A signer that answers every request, with a URL that tells the operation.\<close>

definition keyed_signer :: env where
  "keyed_signer =
     demo_env\<lparr>getSignedUrl :=
       \<lambda>r. case sign_command r of
              PutObjectCommand b k d t \<Rightarrow> Inr (ustr ''https://r2.example/put?X-Amz-Expires=3600'')
            | GetObjectCommand b k \<Rightarrow> Inr (ustr ''https://r2.example/get?X-Amz-Expires=3600'')\<rparr>"

text \<open>The two bodies a failure response can have.\<close>

abbreviation failure_shape :: "response \<Rightarrow> bool" where
  "failure_shape r \<equiv>
     (\<exists>msg. msg \<noteq> [] \<and>
        (r = \<lparr>status = 400, json = [(''error'', JStr msg)]\<rparr>
         \<or> r = \<lparr>status = 500, json = [(''success'', JBool False), (''error'', JStr msg)]\<rparr>))"

section \<open>Hexadecimal digits and escaped octets\<close>









section \<open>UTF-8: decoding inverts encoding\<close>
















section \<open>Decoding one escaped code point\<close>



section \<open>UTF-16: code units and code points\<close>


lemma uriUnescaped_ascii: "uriUnescaped c \<Longrightarrow> unat c < 0x80"
  by (auto simp: uriUnescaped_def word_le_nat_alt)



lemma uriUnescaped_not_surrogate: "uriUnescaped c \<Longrightarrow> \<not> is_lead c \<and> \<not> is_trail c"
  using uriUnescaped_ascii [of c] by (auto simp: is_lead_def is_trail_def word_le_nat_alt)











lemma emit_Inr: "emit xs r = Inr ys \<longleftrightarrow> (\<exists>zs. r = Inr zs \<and> ys = xs @ zs)"
  by (auto simp: emit_def split: sum.splits)


section \<open>What an encoded name contains, and which names can be encoded\<close>



lemma wellFormed_Encode: "wellFormed s \<longleftrightarrow> (\<exists>enc. Encode s = Inr enc)"
proof (induction s rule: Encode.induct)
  case 1
  then show ?case by simp
next
  case (2 c)
  then show ?case using uriUnescaped_not_surrogate [of c] by auto
next
  case (3 c d cs)
  have lt: "is_lead c \<Longrightarrow> \<not> is_trail c"
    by (auto simp: is_lead_def is_trail_def word_le_nat_alt)
  show ?case
  proof (cases "uriUnescaped c")
    case True
    with "3.IH"(1) uriUnescaped_not_surrogate [OF True] show ?thesis
      by (auto simp: emit_Inr)
  next
    case False
    with "3.IH"(2,3) lt show ?thesis
      by (auto simp: emit_Inr)
  qed
qed

section \<open>Shapes of the responses\<close>

lemma ustr_nonempty: "s \<noteq> [] \<Longrightarrow> ustr s \<noteq> []"
  by (simp add: ustr_def)

lemma Encode_sample: "Encode (ustr ''a b.txt'') = Inr (ustr ''a%20b.txt'')"
  by (simp add: ustr_def uriUnescaped_def is_lead_def is_trail_def emit_def
        escape_code_point_def escape_octet_def UTF8Encode_def hexDigit_def)

lemma upload_url_catch_shape: "failure_shape (fst (upload_url_catch err w))"
  by (simp add: upload_url_catch_def ustr_nonempty)

lemma download_url_catch_shape: "failure_shape (fst (download_url_catch err w))"
  by (simp add: download_url_catch_def ustr_nonempty)

lemma upload_catch_shape: "failure_shape (fst (upload_catch f err w))"
  by (simp add: upload_catch_def ustr_nonempty Let_def)

lemma upload_try_status: "fst (upload_try e f w) = Inr res \<Longrightarrow> status res = 200"
  by (auto simp: upload_try_def Let_def split: if_splits sum.splits prod.splits)

lemma generateUploadURL_shape:
  "status (fst (generateUploadURL e body w)) = 200
   \<or> failure_shape (fst (generateUploadURL e body w))"
  using upload_url_catch_shape
  by (auto simp: generateUploadURL_def Let_def ustr_nonempty split: sum.splits)

lemma generateDownloadURL_shape:
  "status (fst (generateDownloadURL e body w)) = 200
   \<or> failure_shape (fst (generateDownloadURL e body w))"
  using download_url_catch_shape
  by (auto simp: generateDownloadURL_def Let_def ustr_nonempty split: sum.splits)

lemma legacyUpload_shape:
  "status (fst (legacyUpload e req_file w)) = 200
   \<or> failure_shape (fst (legacyUpload e req_file w))"
proof (cases req_file)
  case None
  then show ?thesis by (simp add: legacyUpload_def ustr_nonempty)
next
  case (Some f)
  obtain outcome w1 where t: "upload_try e f w = (outcome, w1)" by (cases "upload_try e f w")
  show ?thesis
  proof (cases outcome)
    case (Inl err)
    with Some t upload_catch_shape [of f err w1] show ?thesis by (simp add: legacyUpload_def)
  next
    case (Inr res)
    with Some t upload_try_status [of e f w res] show ?thesis by (simp add: legacyUpload_def)
  qed
qed

lemma upload_try_no_presignedUrl:
  "fst (upload_try e f w) = Inr res \<Longrightarrow> map_of (json res) ''presignedUrl'' = None"
  by (auto simp: upload_try_def Let_def split: if_splits sum.splits prod.splits)

lemma legacyUpload_no_presignedUrl:
  "map_of (json (fst (legacyUpload e req_file w))) ''presignedUrl'' = None"
proof (cases req_file)
  case None
  then show ?thesis by (simp add: legacyUpload_def)
next
  case (Some f)
  obtain outcome w1 where t: "upload_try e f w = (outcome, w1)" by (cases "upload_try e f w")
  show ?thesis
  proof (cases outcome)
    case (Inl err)
    with Some t show ?thesis by (simp add: legacyUpload_def upload_catch_def Let_def)
  next
    case (Inr res)
    with Some t upload_try_no_presignedUrl [of e f w res] show ?thesis
      by (simp add: legacyUpload_def)
  qed
qed

section \<open>Failure responses\<close>

text \<open>
  Claim C1, as the spec has it: every failure response, the HTTP 400 responses for a
  missing filename included, carries \<open>success:false\<close> together with an error message.
  On the code this fails: the response to a body with no filename has status 400 and
  no \<open>success\<close> field at all (line 43).
\<close>

theorem missing_filename_response_has_no_success_flag:
  "status (fst (generateUploadURL demo_env Map.empty demo_world)) = 400
   \<and> map_of (json (fst (generateUploadURL demo_env Map.empty demo_world))) ''success'' = None"
  by (simp add: generateUploadURL_def property_def)

text \<open>
  Claim C1, amended: every response of the three handlers that is not the 200 response
  has status 400 or 500 and carries a non-empty \<open>error\<close> message; the 500 responses
  carry \<open>success:false\<close> as well, the 400 responses carry no \<open>success\<close> field.
\<close>

theorem failure_responses_carry_error:
  assumes "r = fst (generateUploadURL e body w) \<or> r = fst (generateDownloadURL e body w)
             \<or> r = fst (legacyUpload e req_file w)"
      and "status r \<noteq> 200"
  shows "(\<exists>msg. msg \<noteq> [] \<and> map_of (json r) ''error'' = Some (JStr msg))
       \<and> (status r = 500 \<longrightarrow> map_of (json r) ''success'' = Some (JBool False))
       \<and> (status r = 400 \<longrightarrow> map_of (json r) ''success'' = None)
       \<and> (status r = 400 \<or> status r = 500)"
proof -
  have "failure_shape r"
    using assms generateUploadURL_shape [of e body w] generateDownloadURL_shape [of e body w]
      legacyUpload_shape [of e req_file w] by auto
  then show ?thesis
    by auto
qed

theorem failure_responses_carry_error_witness:
  "status (fst (legacyUpload demo_env (Some demo_file) demo_world)) = 500
   \<and> map_of (json (fst (legacyUpload demo_env (Some demo_file) demo_world))) ''success''
       = Some (JBool False)
   \<and> (\<exists>msg. msg \<noteq> [] \<and>
         map_of (json (fst (legacyUpload demo_env (Some demo_file) demo_world))) ''error''
           = Some (JStr msg))
   \<and> status (fst (generateDownloadURL demo_env Map.empty demo_world)) = 400
   \<and> map_of (json (fst (generateDownloadURL demo_env Map.empty demo_world))) ''success'' = None
   \<and> (\<exists>msg. msg \<noteq> [] \<and>
         map_of (json (fst (generateDownloadURL demo_env Map.empty demo_world))) ''error''
           = Some (JStr msg))"
proof -
  let ?r = "fst (legacyUpload demo_env (Some demo_file) demo_world)"
  let ?q = "fst (generateDownloadURL demo_env Map.empty demo_world)"
  have s: "status ?r = 500"
    by (simp add: legacyUpload_def upload_try_def upload_catch_def existsSync_def
          console_error_def demo_world_def Let_def)
  then have n: "status ?r \<noteq> 200"
    by simp
  have t: "status ?q = 400"
    by (simp add: generateDownloadURL_def property_def)
  then have m: "status ?q \<noteq> 200"
    by simp
  have r: "?r = fst (generateUploadURL demo_env Map.empty demo_world)
        \<or> ?r = fst (generateDownloadURL demo_env Map.empty demo_world)
        \<or> ?r = fst (legacyUpload demo_env (Some demo_file) demo_world)"
    by simp
  have q: "?q = fst (generateUploadURL demo_env Map.empty demo_world)
        \<or> ?q = fst (generateDownloadURL demo_env Map.empty demo_world)
        \<or> ?q = fst (legacyUpload demo_env None demo_world)"
    by simp
  from failure_responses_carry_error [OF r n] failure_responses_carry_error [OF q m] s t
  show ?thesis by simp
qed

section \<open>Deleting the temporary file\<close>

text \<open>
  Claim C2 says that a failure to delete the temporary file never changes the status or
  the body, and that after an accepted store write the response is still the success
  response. The code at the input below: the file is staged and readable, the store
  accepts the write, and \<open>unlinkSync\<close> at line 250 throws. The throw is inside the
  \<open>try\<close>, so the handler answers 500 with the deletion's message although the object
  was written.
\<close>

theorem deletion_failure_overrides_success_response:
  "fst (legacyUpload demo_env (Some demo_file) (staged_world None (Some EPERM)))
     = \<lparr>status = 500, json = [(''success'', JBool False), (''error'', JStr (message EPERM))]\<rparr>
   \<and> s3_send demo_env (PutObjectCommand (Some (ustr ''videos'')) (JStr (ustr ''a b.txt''))
                           (Some [0x68, 0x69]) (JStr (ustr ''text/plain''))) = Inr ()
   \<and> puts (snd (legacyUpload demo_env (Some demo_file) (staged_world None (Some EPERM))))
     = [PutObjectCommand (Some (ustr ''videos'')) (JStr (ustr ''a b.txt''))
          (Some [0x68, 0x69]) (JStr (ustr ''text/plain''))]"
  by (simp add: legacyUpload_def upload_try_def upload_catch_def unlinkSync_def readFileSync_def
        console_error_def existsSync_def Let_def demo_env_def demo_file_def staged_world_def
        demo_world_def EPERM_def ustr_nonempty)

text \<open>
  Claim C3: whenever the payload was staged on disk, a deletion of the temporary file
  has been attempted by the time \<open>legacyUpload\<close> returns, whatever the response; and if
  deleting that file does not fail, the file no longer exists.
\<close>

theorem temporary_file_deleted_on_every_path:
  assumes "existsSync w (path f)"
  shows "path f \<in> set (drop (length (unlinks w)) (unlinks (snd (legacyUpload e (Some f) w))))
       \<and> ((\<exists>d. disk w (path f) = Some d \<and> unlink_error d = None) \<longrightarrow>
            \<not> existsSync (snd (legacyUpload e (Some f) w)) (path f))"
  using assms
  by (auto simp: legacyUpload_def upload_try_def upload_catch_def unlinkSync_def readFileSync_def
        console_error_def existsSync_def Let_def
        split: option.splits sum.splits prod.splits if_splits)

theorem temporary_file_deleted_on_every_path_witness:
  "existsSync (staged_world None None) (path demo_file)
   \<and> \<not> existsSync (snd (legacyUpload demo_env (Some demo_file) (staged_world None None)))
          (path demo_file)
   \<and> \<not> existsSync (snd (legacyUpload store_down (Some demo_file) (staged_world None None)))
          (path demo_file)"
proof -
  have s: "existsSync (staged_world None None) (path demo_file)"
    by (simp add: existsSync_def staged_world_def demo_file_def ustr_nonempty)
  have d: "\<exists>d. disk (staged_world None None) (path demo_file) = Some d \<and> unlink_error d = None"
    by (simp add: staged_world_def demo_file_def)
  from temporary_file_deleted_on_every_path [OF s, of demo_env]
    temporary_file_deleted_on_every_path [OF s, of store_down] s d
  show ?thesis by blast
qed

section \<open>The public URL\<close>

text \<open>
  Claim C4, as the spec has it: for every non-empty filename \<open>generateUploadURL\<close> returns
  \<open>success:true\<close>. On the code this fails in two ways, both answered by the \<open>catch\<close>
  block with status 500. A filename that is one unpaired surrogate (a JSON body can
  carry one as an escape) makes \<open>encodeURIComponent\<close> at line 57 throw URIError, even
  though signing succeeded; and a signer that rejects makes line 53 throw, whatever the
  filename.
\<close>

theorem upload_url_fails_on_surrogate_or_signer:
  "status (fst (generateUploadURL demo_env [ustr ''filename'' \<mapsto> JStr [0xD800]] demo_world)) = 500
   \<and> map_of (json (fst (generateUploadURL demo_env [ustr ''filename'' \<mapsto> JStr [0xD800]]
                          demo_world))) ''success'' = Some (JBool False)
   \<and> status (fst (generateUploadURL signer_down [ustr ''filename'' \<mapsto> JStr (ustr ''a b.txt'')]
                     demo_world)) = 500"
  by (simp add: generateUploadURL_def property_def demo_env_def signer_down_def Let_def
        encodeURIComponent_def ToString_def uriUnescaped_def is_lead_def is_trail_def
        upload_url_catch_def ustr_nonempty)

text \<open>
  Claim C4, amended: for every non-empty filename with no unpaired surrogate and any
  contentType, when the signing call succeeds, \<open>generateUploadURL\<close> returns the 200
  response with \<open>success:true\<close> and \<open>publicUrl\<close> equal to the public base (the configured
  \<open>R2_PUBLIC_URL\<close>, or the built-in default when it is unset or empty), then \<open>/\<close>, then the
  percent-encoded filename.
\<close>

theorem upload_url_public_url:
  assumes "property body ''filename'' = JStr s" and "s \<noteq> []" and "wellFormed s"
      and "getSignedUrl e
             \<lparr>sign_command =
                 PutObjectCommand (R2_BUCKET e) (JStr s) None
                   (if truthy (property body ''contentType'') then property body ''contentType''
                    else JStr (ustr ''application/octet-stream'')),
               expiresIn = 3600\<rparr> = Inr url"
  shows "\<exists>enc. Encode s = Inr enc
           \<and> fst (generateUploadURL e body w) =
               \<lparr>status = 200,
                 json = [(''success'', JBool True),
                         (''presignedUrl'', JStr url),
                         (''publicUrl'', JStr (publicBase e @ ustr ''/'' @ enc)),
                         (''filename'', JStr s),
                         (''message'', JStr (ustr ''Presigned URL generated successfully''))]\<rparr>"
proof -
  from assms(3) obtain enc where enc: "Encode s = Inr enc"
    using wellFormed_Encode by blast
  then show ?thesis
    using assms(1,2,4)
    by (simp add: generateUploadURL_def Let_def encodeURIComponent_def ToString_def)
qed

theorem upload_url_public_url_witness:
  "fst (generateUploadURL demo_env [ustr ''filename'' \<mapsto> JStr (ustr ''a b.txt'')] demo_world) =
     \<lparr>status = 200,
       json = [(''success'', JBool True),
               (''presignedUrl'', JStr (ustr ''https://r2.example/signed'')),
               (''publicUrl'',
                  JStr (ustr ''https://cdn.atulyaayurveda.shop'' @ ustr ''/'' @ ustr ''a%20b.txt'')),
               (''filename'', JStr (ustr ''a b.txt'')),
               (''message'', JStr (ustr ''Presigned URL generated successfully''))]\<rparr>"
proof -
  let ?body = "[ustr ''filename'' \<mapsto> JStr (ustr ''a b.txt'')]"
  have w: "wellFormed (ustr ''a b.txt'')"
    by (simp add: ustr_def is_lead_def is_trail_def)
  have p: "property ?body ''filename'' = JStr (ustr ''a b.txt'')"
    by (simp add: property_def)
  have n: "ustr ''a b.txt'' \<noteq> []" by (simp add: ustr_def)
  have g: "getSignedUrl demo_env
             \<lparr>sign_command =
                 PutObjectCommand (R2_BUCKET demo_env) (JStr (ustr ''a b.txt'')) None
                   (if truthy (property ?body ''contentType'') then property ?body ''contentType''
                    else JStr (ustr ''application/octet-stream'')),
               expiresIn = 3600\<rparr> = Inr (ustr ''https://r2.example/signed'')"
    by (simp add: demo_env_def)
  have b: "publicBase demo_env = ustr ''https://cdn.atulyaayurveda.shop''"
    by (simp add: publicBase_def demo_env_def)
  from upload_url_public_url [OF p n w g, of demo_world] show ?thesis
    by (simp add: Encode_sample b)
qed



section \<open>The legacy upload\<close>




text \<open>
  Claim C10: when the staged file is absent from disk, or reading it throws, the handler
  answers with an error and sends no command to the store.
\<close>

theorem no_store_write_when_staging_fails:
  assumes "\<not> existsSync w (path f) \<or> (\<exists>err. readFileSync w (path f) = Inl err)"
  shows "puts (snd (legacyUpload e (Some f) w)) = puts w
       \<and> status (fst (legacyUpload e (Some f) w)) = 500
       \<and> map_of (json (fst (legacyUpload e (Some f) w))) ''success'' = Some (JBool False)"
  using assms
  by (auto simp: legacyUpload_def upload_try_def upload_catch_def unlinkSync_def
        console_error_def existsSync_def Let_def
        split: option.splits sum.splits prod.splits if_splits)

theorem no_store_write_when_staging_fails_witness:
  "\<not> existsSync demo_world (path demo_file)
   \<and> puts (snd (legacyUpload demo_env (Some demo_file) demo_world)) = []
   \<and> readFileSync (staged_world (Some EACCES) None) (path demo_file) = Inl EACCES
   \<and> puts (snd (legacyUpload demo_env (Some demo_file) (staged_world (Some EACCES) None))) = []
   \<and> status (fst (legacyUpload demo_env (Some demo_file) (staged_world (Some EACCES) None))) = 500"
proof -
  have a: "\<not> existsSync demo_world (path demo_file)"
    by (simp add: existsSync_def demo_world_def)
  have r: "readFileSync (staged_world (Some EACCES) None) (path demo_file) = Inl EACCES"
    by (simp add: readFileSync_def staged_world_def demo_file_def)
  have p: "puts demo_world = []" "puts (staged_world (Some EACCES) None) = []"
    by (simp_all add: staged_world_def demo_world_def)
  from a have 1: "\<not> existsSync demo_world (path demo_file)
                    \<or> (\<exists>err. readFileSync demo_world (path demo_file) = Inl err)" by blast
  from r have 2: "\<not> existsSync (staged_world (Some EACCES) None) (path demo_file)
                    \<or> (\<exists>err. readFileSync (staged_world (Some EACCES) None) (path demo_file) = Inl err)"
    by blast
  from no_store_write_when_staging_fails [OF 1, of demo_env]
    no_store_write_when_staging_fails [OF 2, of demo_env] a r p
  show ?thesis by simp
qed

section \<open>Signing\<close>

text \<open>
  Claim C7: when the body has no filename, or an empty one (or any other falsy value),
  \<open>generateUploadURL\<close> and \<open>generateDownloadURL\<close> answer 400 at once and leave the world
  as it was: no signing call is recorded and nothing is sent to the store.
\<close>

theorem missing_filename_rejected_without_signing:
  assumes "\<not> truthy (property body ''filename'')"
  shows "generateUploadURL e body w =
           (\<lparr>status = 400, json = [(''error'', JStr (ustr ''Filename is required''))]\<rparr>, w)
       \<and> generateDownloadURL e body w =
           (\<lparr>status = 400, json = [(''error'', JStr (ustr ''Filename is required''))]\<rparr>, w)"
  using assms by (simp add: generateUploadURL_def generateDownloadURL_def)

theorem missing_filename_rejected_without_signing_witness:
  "generateUploadURL demo_env Map.empty demo_world =
     (\<lparr>status = 400, json = [(''error'', JStr (ustr ''Filename is required''))]\<rparr>, demo_world)
   \<and> generateDownloadURL demo_env [ustr ''filename'' \<mapsto> JStr []] demo_world =
     (\<lparr>status = 400, json = [(''error'', JStr (ustr ''Filename is required''))]\<rparr>, demo_world)"
  using missing_filename_rejected_without_signing [of Map.empty demo_env demo_world]
    missing_filename_rejected_without_signing
      [of "[ustr ''filename'' \<mapsto> JStr []]" demo_env demo_world]
  by (simp add: property_def)

text \<open>
  Claim C8: every signing request the gateway issues has \<open>expiresIn\<close> 3600 and names one
  command on one key, the filename of the request: a \<open>PutObjectCommand\<close> from
  \<open>generateUploadURL\<close>, a \<open>GetObjectCommand\<close> from \<open>generateDownloadURL\<close>. Each request
  issues at most one, and \<open>legacyUpload\<close> issues none. Every \<open>presignedUrl\<close> a handler
  hands back is the signer's answer to exactly that request, and whenever the signer
  answers, its URL is the one handed back; \<open>legacyUpload\<close> hands back none.
\<close>

theorem signing_requests_fixed_expiry:
  assumes up: "put_request =
                 \<lparr>sign_command =
                     PutObjectCommand (R2_BUCKET e) (property body ''filename'') None
                       (if truthy (property body ''contentType'') then property body ''contentType''
                        else JStr (ustr ''application/octet-stream'')),
                   expiresIn = 3600\<rparr>"
      and down: "get_request =
                   \<lparr>sign_command = GetObjectCommand (R2_BUCKET e) (property body ''filename''),
                     expiresIn = 3600\<rparr>"
  shows "signs (snd (generateUploadURL e body w)) =
           signs w @ (if truthy (property body ''filename'') then [put_request] else [])
       \<and> signs (snd (generateDownloadURL e body w)) =
           signs w @ (if truthy (property body ''filename'') then [get_request] else [])
       \<and> signs (snd (legacyUpload e req_file w)) = signs w
       \<and> (map_of (json (fst (generateUploadURL e body w))) ''presignedUrl'' = Some p \<longrightarrow>
            truthy (property body ''filename'')
            \<and> (\<exists>url. p = JStr url \<and> getSignedUrl e put_request = Inr url))
       \<and> (map_of (json (fst (generateDownloadURL e body w))) ''presignedUrl'' = Some q \<longrightarrow>
            truthy (property body ''filename'')
            \<and> (\<exists>url. q = JStr url \<and> getSignedUrl e get_request = Inr url))
       \<and> (truthy (property body ''filename'') \<longrightarrow> getSignedUrl e put_request = Inr u \<longrightarrow>
            encodeURIComponent e (property body ''filename'') = Inr enc \<longrightarrow>
            map_of (json (fst (generateUploadURL e body w))) ''presignedUrl'' = Some (JStr u))
       \<and> (truthy (property body ''filename'') \<longrightarrow> getSignedUrl e get_request = Inr v \<longrightarrow>
            fst (generateDownloadURL e body w) =
              \<lparr>status = 200,
                json = [(''success'', JBool True),
                        (''presignedUrl'', JStr v),
                        (''filename'', property body ''filename''),
                        (''message'', JStr (ustr ''Download URL generated successfully''))]\<rparr>)
       \<and> map_of (json (fst (legacyUpload e req_file w))) ''presignedUrl'' = None"
proof (intro conjI)
  show "signs (snd (generateUploadURL e body w)) =
           signs w @ (if truthy (property body ''filename'') then [put_request] else [])"
    unfolding up
    by (simp add: generateUploadURL_def Let_def upload_url_catch_def console_error_def
          split: sum.splits)
  show "signs (snd (generateDownloadURL e body w)) =
           signs w @ (if truthy (property body ''filename'') then [get_request] else [])"
    unfolding down
    by (simp add: generateDownloadURL_def Let_def download_url_catch_def console_error_def
          split: sum.splits)
  show "signs (snd (legacyUpload e req_file w)) = signs w"
    by (simp add: legacyUpload_def upload_try_def upload_catch_def unlinkSync_def
          console_error_def existsSync_def Let_def
          split: option.splits sum.splits prod.splits if_splits)
  show "map_of (json (fst (generateUploadURL e body w))) ''presignedUrl'' = Some p \<longrightarrow>
            truthy (property body ''filename'')
            \<and> (\<exists>url. p = JStr url \<and> getSignedUrl e put_request = Inr url)"
    unfolding up
    by (auto simp: generateUploadURL_def Let_def upload_url_catch_def
          split: if_splits sum.splits)
  show "map_of (json (fst (generateDownloadURL e body w))) ''presignedUrl'' = Some q \<longrightarrow>
            truthy (property body ''filename'')
            \<and> (\<exists>url. q = JStr url \<and> getSignedUrl e get_request = Inr url)"
    unfolding down
    by (auto simp: generateDownloadURL_def Let_def download_url_catch_def
          split: if_splits sum.splits)
  show "truthy (property body ''filename'') \<longrightarrow> getSignedUrl e put_request = Inr u \<longrightarrow>
            encodeURIComponent e (property body ''filename'') = Inr enc \<longrightarrow>
            map_of (json (fst (generateUploadURL e body w))) ''presignedUrl'' = Some (JStr u)"
    unfolding up
    by (simp add: generateUploadURL_def Let_def)
  show "truthy (property body ''filename'') \<longrightarrow> getSignedUrl e get_request = Inr v \<longrightarrow>
            fst (generateDownloadURL e body w) =
              \<lparr>status = 200,
                json = [(''success'', JBool True),
                        (''presignedUrl'', JStr v),
                        (''filename'', property body ''filename''),
                        (''message'', JStr (ustr ''Download URL generated successfully''))]\<rparr>"
    unfolding down
    by (simp add: generateDownloadURL_def Let_def)
  show "map_of (json (fst (legacyUpload e req_file w))) ''presignedUrl'' = None"
    by (rule legacyUpload_no_presignedUrl)
qed

theorem signing_requests_fixed_expiry_witness:
  "signs (snd (generateDownloadURL keyed_signer [ustr ''filename'' \<mapsto> JStr (ustr ''clip.mp4'')]
                 demo_world))
     = [\<lparr>sign_command = GetObjectCommand (Some (ustr ''videos'')) (JStr (ustr ''clip.mp4'')),
         expiresIn = 3600\<rparr>]
   \<and> fst (generateDownloadURL keyed_signer [ustr ''filename'' \<mapsto> JStr (ustr ''clip.mp4'')]
            demo_world)
     = \<lparr>status = 200,
        json = [(''success'', JBool True),
                (''presignedUrl'', JStr (ustr ''https://r2.example/get?X-Amz-Expires=3600'')),
                (''filename'', JStr (ustr ''clip.mp4'')),
                (''message'', JStr (ustr ''Download URL generated successfully''))]\<rparr>
   \<and> map_of (json (fst (generateUploadURL keyed_signer
                          [ustr ''filename'' \<mapsto> JStr (ustr ''clip.mp4'')] demo_world)))
        ''presignedUrl''
     = Some (JStr (ustr ''https://r2.example/put?X-Amz-Expires=3600''))"
proof -
  let ?body = "[ustr ''filename'' \<mapsto> JStr (ustr ''clip.mp4'')]"
  let ?put = "\<lparr>sign_command =
                  PutObjectCommand (R2_BUCKET keyed_signer) (property ?body ''filename'') None
                    (if truthy (property ?body ''contentType'') then property ?body ''contentType''
                     else JStr (ustr ''application/octet-stream'')),
                expiresIn = 3600\<rparr>"
  let ?get = "\<lparr>sign_command = GetObjectCommand (R2_BUCKET keyed_signer) (property ?body ''filename''),
                expiresIn = 3600\<rparr>"
  have t: "truthy (property ?body ''filename'')"
    by (simp add: property_def ustr_nonempty)
  have g: "getSignedUrl keyed_signer ?get = Inr (ustr ''https://r2.example/get?X-Amz-Expires=3600'')"
    by (simp add: keyed_signer_def demo_env_def)
  have p: "getSignedUrl keyed_signer ?put = Inr (ustr ''https://r2.example/put?X-Amz-Expires=3600'')"
    by (simp add: keyed_signer_def demo_env_def)
  have e: "encodeURIComponent keyed_signer (property ?body ''filename'') = Inr (ustr ''clip.mp4'')"
    by (simp add: property_def encodeURIComponent_def ToString_def)
       (simp add: ustr_def uriUnescaped_def emit_def)
  have b: "R2_BUCKET keyed_signer = Some (ustr ''videos'')"
    by (simp add: keyed_signer_def demo_env_def)
  have f: "property ?body ''filename'' = JStr (ustr ''clip.mp4'')"
    by (simp add: property_def)
  have s: "signs demo_world = []" by (simp add: demo_world_def)
  note c = signing_requests_fixed_expiry [OF refl refl, where e = keyed_signer and body = ?body and w = demo_world
      and u = "ustr ''https://r2.example/put?X-Amz-Expires=3600''" and enc = "ustr ''clip.mp4''"
      and v = "ustr ''https://r2.example/get?X-Amz-Expires=3600''"]
  have 1: "signs (snd (generateDownloadURL keyed_signer ?body demo_world)) = [?get]"
    using c [THEN conjunct2, THEN conjunct1] t s by simp
  have 2: "map_of (json (fst (generateUploadURL keyed_signer ?body demo_world))) ''presignedUrl''
             = Some (JStr (ustr ''https://r2.example/put?X-Amz-Expires=3600''))"
    using c [THEN conjunct2, THEN conjunct2, THEN conjunct2, THEN conjunct2, THEN conjunct2,
             THEN conjunct1] t p e by blast
  have 3: "fst (generateDownloadURL keyed_signer ?body demo_world) =
              \<lparr>status = 200,
                json = [(''success'', JBool True),
                        (''presignedUrl'', JStr (ustr ''https://r2.example/get?X-Amz-Expires=3600'')),
                        (''filename'', property ?body ''filename''),
                        (''message'', JStr (ustr ''Download URL generated successfully''))]\<rparr>"
    using c [THEN conjunct2, THEN conjunct2, THEN conjunct2, THEN conjunct2, THEN conjunct2,
             THEN conjunct2, THEN conjunct1] t g by blast
  show ?thesis
    unfolding 1 2 3 b f by simp
qed

text \<open>
  Claim C9: the response of \<open>generateUploadURL\<close>, and its effect, depend on the body only
  through its \<open>filename\<close> and \<open>contentType\<close>: two bodies that agree on these two give the
  same result under the same configuration, signer and world.
\<close>

theorem upload_url_ignores_other_fields:
  assumes "property body1 ''filename'' = property body2 ''filename''"
      and "property body1 ''contentType'' = property body2 ''contentType''"
  shows "generateUploadURL e body1 w = generateUploadURL e body2 w"
  using assms by (simp add: generateUploadURL_def)

theorem upload_url_ignores_other_fields_witness:
  "generateUploadURL demo_env
     [ustr ''filename'' \<mapsto> JStr (ustr ''clip.mp4''), ustr ''admin'' \<mapsto> JBool True] demo_world
   = generateUploadURL demo_env
     [ustr ''filename'' \<mapsto> JStr (ustr ''clip.mp4''), ustr ''Bucket'' \<mapsto> JStr (ustr ''other'')]
     demo_world"
  by (rule upload_url_ignores_other_fields) (simp_all add: property_def ustr_def)

end
